theory Spec2Isabelle
  imports Main "HOL-Library.Sublist"
begin

section \<open>gcsls: listing storage objects whose keys match a glob pattern\<close>

text \<open>
  A shallow embedding of \<^verbatim>\<open>main.go\<close>. Go strings are byte sequences; they are
  modelled as \<open>string\<close> (a list of bytes). The two libraries the program calls, the
  storage client and the glob matcher, are outside the repository: the storage client
  is a value of the record \<open>gcs\<close>, and the matcher is a parameter of the run.
\<close>

subsection \<open>Package strings\<close>

text \<open>\<^verbatim>\<open>strings.HasPrefix(s, prefix)\<close>:
  \<^verbatim>\<open>len(s) >= len(prefix) && s[:len(prefix)] == prefix\<close>.\<close>

definition HasPrefix :: "string \<Rightarrow> string \<Rightarrow> bool" where
  "HasPrefix s pre = (length pre \<le> length s \<and> take (length pre) s = pre)"

text \<open>\<^verbatim>\<open>strings.TrimPrefix(s, prefix)\<close>: \<open>s\<close> without the leading \<open>prefix\<close>, and
  \<open>s\<close> itself when it does not start with it.\<close>

definition TrimPrefix :: "string \<Rightarrow> string \<Rightarrow> string" where
  "TrimPrefix s pre = (if HasPrefix s pre then drop (length pre) s else s)"

text \<open>\<^verbatim>\<open>strings.IndexAny(s, chars)\<close>: the index of the first byte of \<open>s\<close> that
  is one of \<open>chars\<close> (all ASCII here), and \<open>-1\<close> when there is none.\<close>

fun IndexAny :: "string \<Rightarrow> string \<Rightarrow> int" where
  "IndexAny [] chars = - 1"
| "IndexAny (c # s) chars =
     (if c \<in> set chars then 0
      else (let i = IndexAny s chars in if i = - 1 then - 1 else i + 1))"

text \<open>\<^verbatim>\<open>strings.SplitN(s, sep, 2)\<close> for a separator of one byte: \<open>s\<close> alone
  when it has no separator, otherwise the text before the first separator and the
  unsplit remainder after it.\<close>

definition SplitN2 :: "string \<Rightarrow> char \<Rightarrow> string list" where
  "SplitN2 s sep =
     (let i = IndexAny s [sep]
      in if i < 0 then [s] else [take (nat i) s, drop (nat i + 1) s])"

subsection \<open>getPrefixFromPattern\<close>

text \<open>
  \<^verbatim>\<open>
  func getPrefixFromPattern(pattern string) string {
      wildcardIndex := strings.IndexAny(pattern, "*?[")
      if wildcardIndex == -1 { return pattern }
      return pattern[:wildcardIndex]
  }
  \<close>
\<close>

definition getPrefixFromPattern :: "string \<Rightarrow> string" where
  "getPrefixFromPattern pattern =
     (let wildcardIndex = IndexAny pattern ''*?[''
      in if wildcardIndex = - 1 then pattern else take (nat wildcardIndex) pattern)"

subsection \<open>Errors, the matcher and the storage client as the program sees them\<close>

text \<open>
  The program reports errors with \<^verbatim>\<open>fmt.Errorf\<close>; the constructor is the kind of the
  error (a malformed path, a failure of the storage backend, a malformed pattern) and
  the argument is its message.
\<close>

datatype error = InvalidPath string | BackendError string | PatternError string

text \<open>\<^verbatim>\<open>doublestar.Match(pattern, name)\<close> returns \<^verbatim>\<open>(matched bool, err error)\<close>; its
  only error is \<^verbatim>\<open>ErrBadPattern\<close>.\<close>

datatype match_error = ErrBadPattern

type_synonym matcher = "string \<Rightarrow> string \<Rightarrow> match_error + bool"

text \<open>
  The storage client. \<open>newClient\<close> is the error of \<^verbatim>\<open>storage.NewClient(ctx)\<close>, if any;
  \<open>objects g bucket prefix\<close> is what the iterator of
  \<^verbatim>\<open>client.Bucket(bucket).Objects(ctx, &storage.Query{Prefix: prefix})\<close> gives to
  successive calls of \<^verbatim>\<open>it.Next()\<close> before \<^verbatim>\<open>iterator.Done\<close>: the attributes of an
  object (its name) or an error.
\<close>

datatype item = Attrs string | IterErr string

record gcs =
  newClient :: "string option"
  objects :: "string \<Rightarrow> string \<Rightarrow> item list"

text \<open>What a run leaves behind: the lines written to standard output, the calls made to
  the storage client, and the error returned (\<open>None\<close> for \<^verbatim>\<open>nil\<close>).\<close>

datatype call = NewClient | Objects string string | Close

record run =
  stdout :: "string list"
  calls :: "call list"
  err :: "error option"

subsection \<open>listObjectsWithWildcard\<close>

text \<open>
  Step 1 of \<^verbatim>\<open>listObjectsWithWildcard\<close> (lines 72 to 96), the parsing of the path into
  the bucket name and the object pattern:
  \<^verbatim>\<open>
  if !strings.HasPrefix(gcsPath, "gs://") {
      return fmt.Errorf("invalid GCS path: must start with gs://")
  }
  pathWithoutScheme := strings.TrimPrefix(gcsPath, "gs://")
  parts := strings.SplitN(pathWithoutScheme, "/", 2)
  if len(parts) == 0 || parts[0] == "" {
      return fmt.Errorf("invalid GCS path: bucket name is missing")
  }
  bucketName := parts[0]
  objectPattern := ""
  if len(parts) > 1 { objectPattern = parts[1] }
  if objectPattern == "" { objectPattern = "**" }
  \<close>
\<close>

definition parsePath :: "string \<Rightarrow> error + string \<times> string" where
  "parsePath gcsPath =
     (if \<not> HasPrefix gcsPath ''gs://''
      then Inl (InvalidPath ''invalid GCS path: must start with gs://'')
      else
        let pathWithoutScheme = TrimPrefix gcsPath ''gs://'';
            parts = SplitN2 pathWithoutScheme CHR ''/''
        in if length parts = 0 \<or> parts ! 0 = []
           then Inl (InvalidPath ''invalid GCS path: bucket name is missing'')
           else
             let bucketName = parts ! 0;
                 objectPattern = (if length parts > 1 then parts ! 1 else [])
             in Inr (bucketName, if objectPattern = [] then ''**'' else objectPattern))"

text \<open>
  Step 4, the loop over the iterator (lines 125 to 145). The result is the lines printed,
  the flag \<open>found\<close> and the error the function returns from inside the loop, if any.
  \<^verbatim>\<open>
  for {
      attrs, err := it.Next()
      if err == iterator.Done { break }
      if err != nil { return fmt.Errorf("failed to iterate objects: %w", err) }
      matched, err := doublestar.Match(objectPattern, attrs.Name)
      if err != nil {
          return fmt.Errorf("invalid glob pattern '%s': %w", objectPattern, err)
      }
      if matched {
          fmt.Printf("gs://%s/%s\n", bucketName, attrs.Name)
          found = true
      }
  }
  \<close>
\<close>

fun loop :: "matcher \<Rightarrow> string \<Rightarrow> string \<Rightarrow> item list \<Rightarrow> bool
             \<Rightarrow> string list \<times> bool \<times> error option" where
  "loop doublestar_Match bucketName objectPattern [] found = ([], found, None)"
| "loop doublestar_Match bucketName objectPattern (IterErr e # it) found =
     ([], found, Some (BackendError (''failed to iterate objects: '' @ e)))"
| "loop doublestar_Match bucketName objectPattern (Attrs name # it) found =
     (case doublestar_Match objectPattern name of
        Inl ErrBadPattern \<Rightarrow>
          ([], found,
           Some (PatternError (''invalid glob pattern '' @ [CHR 0x27] @ objectPattern
                                 @ [CHR 0x27] @ '': syntax error in pattern'')))
      | Inr matched \<Rightarrow>
          if matched
          then (case loop doublestar_Match bucketName objectPattern it True of
                  (out, found', e) \<Rightarrow> ((''gs://'' @ bucketName @ ''/'' @ name) # out, found', e))
          else loop doublestar_Match bucketName objectPattern it found)"

text \<open>
  The whole function. The matcher it imports, \<^verbatim>\<open>doublestar.Match\<close>, is the parameter
  \<open>doublestar_Match\<close>. The deferred \<^verbatim>\<open>client.Close()\<close> runs on every return after the
  client was created.
  \<^verbatim>\<open>
  client, err := storage.NewClient(ctx)
  if err != nil { return fmt.Errorf("failed to create GCS client: %w", err) }
  defer client.Close()
  bucket := client.Bucket(bucketName)
  prefix := getPrefixFromPattern(objectPattern)
  query := &storage.Query{Prefix: prefix}
  fmt.Printf("Listing objects in gs://%s matching pattern: %s\n", bucketName, objectPattern)
  it := bucket.Objects(ctx, query)
  found := false
  for { ... }
  if !found { fmt.Println("No objects found matching the pattern.") }
  return nil
  \<close>
\<close>

definition listObjectsWithWildcard :: "matcher \<Rightarrow> gcs \<Rightarrow> string \<Rightarrow> run" where
  "listObjectsWithWildcard doublestar_Match g gcsPath =
     (case parsePath gcsPath of
        Inl e \<Rightarrow> \<lparr>stdout = [], calls = [], err = Some e\<rparr>
      | Inr (bucketName, objectPattern) \<Rightarrow>
          (case newClient g of
             Some e \<Rightarrow>
               \<lparr>stdout = [], calls = [NewClient],
                err = Some (BackendError (''failed to create GCS client: '' @ e))\<rparr>
           | None \<Rightarrow>
               let queryPrefix = getPrefixFromPattern objectPattern;
                   header = ''Listing objects in gs://'' @ bucketName
                              @ '' matching pattern: '' @ objectPattern
               in (case loop doublestar_Match bucketName objectPattern
                          (objects g bucketName queryPrefix) False of
                     (out, found, e) \<Rightarrow>
                       \<lparr>stdout = header # out
                          @ (if e = None \<and> \<not> found
                             then [''No objects found matching the pattern.''] else []),
                        calls = [NewClient, Objects bucketName queryPrefix, Close],
                        err = e\<rparr>)))"

subsection \<open>The glob matcher\<close>

text \<open>
  Modelled from the spec: \<^verbatim>\<open>doublestar.Match\<close> of the imported package
  \<^verbatim>\<open>github.com/bmatcuk/doublestar/v4\<close>, whose source is not among the repository's
  files. Section 4.4 of the specification: standard glob semantics extended with \<open>**\<close>
  (matches across path-separator boundaries, any number of path segments including
  zero), alongside \<open>*\<close> (matches within one segment, never crossing a separator), \<open>?\<close>
  (exactly one character) and \<open>[...]\<close> (character class); a syntactically invalid
  pattern (such as an unterminated bracket) is a pattern error, the same for every
  candidate. The standard glob grammar is the one of Go's \<^verbatim>\<open>path.Match\<close>, which the
  package extends: a backslash makes the next character literal, a class may start with
  \<open>^\<close> or \<open>!\<close> to negate it and holds characters and ranges \<open>lo-hi\<close>, and \<open>?\<close> and a
  class do not match the separator. Two stars are the recursive wildcard only as a whole
  path segment (at the start of a segment and followed by \<open>/\<close> or by the end of the
  pattern); elsewhere they are a single star. The package's alternatives \<open>{a,b}\<close>, of which
  the specification says nothing, are not modelled. Characters are bytes.
\<close>

datatype token =
    Lit char
  | AnyChar
  | Star
  | Globstar
  | Class bool "(char \<times> char) list"

abbreviation backslash :: char where
  "backslash \<equiv> CHR 0x5C"

text \<open>One character of a class, possibly escaped; \<open>-\<close> and \<open>]\<close> cannot stand there.\<close>

definition getEsc :: "string \<Rightarrow> (char \<times> string) option" where
  "getEsc chunk =
     (case chunk of
        [] \<Rightarrow> None
      | c # rest \<Rightarrow>
          if c = CHR ''-'' \<or> c = CHR '']'' then None
          else if c = backslash
          then (case rest of [] \<Rightarrow> None | d # rest' \<Rightarrow> Some (d, rest'))
          else Some (c, rest))"

text \<open>One range of a class: a character \<open>c\<close> (the range from \<open>c\<close> to \<open>c\<close>) or \<open>lo-hi\<close>.\<close>

definition range1 :: "string \<Rightarrow> ((char \<times> char) \<times> string) option" where
  "range1 chunk =
     (case getEsc chunk of
        None \<Rightarrow> None
      | Some (lo, rest) \<Rightarrow>
          (case rest of
             [] \<Rightarrow> Some ((lo, lo), rest)
           | d # rest' \<Rightarrow>
               if d = CHR ''-''
               then (case getEsc rest' of
                       None \<Rightarrow> None
                     | Some (hi, rest'') \<Rightarrow> Some ((lo, hi), rest''))
               else Some ((lo, lo), rest)))"

text \<open>The ranges of a class up to its closing bracket, and the pattern after it. A class
  has at least one range; a class that does not end is an error (\<open>None\<close>).\<close>

function ranges :: "string \<Rightarrow> ((char \<times> char) list \<times> string) option" where
  "ranges chunk =
     (case range1 chunk of
        None \<Rightarrow> None
      | Some (r, rest) \<Rightarrow>
          (case rest of
             [] \<Rightarrow> None
           | c # rest' \<Rightarrow>
               if c = CHR '']'' then Some ([r], rest')
               else (case ranges rest of
                       None \<Rightarrow> None
                     | Some (rs, rest'') \<Rightarrow> Some (r # rs, rest''))))"
  by pat_completeness auto
termination
  by (relation "measure length")
     (auto simp: range1_def getEsc_def split: list.splits if_splits option.splits)

declare ranges.simps [simp del]

definition parse_class :: "string \<Rightarrow> (token \<times> string) option" where
  "parse_class chunk =
     (case chunk of
        [] \<Rightarrow> None
      | c # rest \<Rightarrow>
          if c = CHR ''^'' \<or> c = CHR ''!''
          then (case ranges rest of
                  None \<Rightarrow> None
                | Some (rs, rest') \<Rightarrow> Some (Class True rs, rest'))
          else (case ranges chunk of
                  None \<Rightarrow> None
                | Some (rs, rest') \<Rightarrow> Some (Class False rs, rest')))"

lemma range1_shorter: "range1 chunk = Some (r, rest) \<Longrightarrow> length rest < length chunk"
  by (auto simp: range1_def getEsc_def split: list.splits if_splits option.splits)

lemma ranges_shorter: "ranges chunk = Some (rs, rest) \<Longrightarrow> length rest < length chunk"
proof (induction chunk arbitrary: rs rest rule: ranges.induct)
  case (1 chunk)
  from "1.prems" obtain r rest1 where r1: "range1 chunk = Some (r, rest1)"
    by (subst (asm) ranges.simps) (auto split: option.splits)
  then have less1: "length rest1 < length chunk" by (rule range1_shorter)
  from "1.prems" r1 obtain c rest1' where rest1: "rest1 = c # rest1'"
    by (subst (asm) ranges.simps) (auto split: list.splits)
  show ?case
  proof (cases "c = CHR '']''")
    case True
    with "1.prems" r1 rest1 have "rest = rest1'"
      by (subst (asm) ranges.simps) simp
    with less1 rest1 show ?thesis by simp
  next
    case False
    with "1.prems" r1 rest1 obtain rs' where "ranges rest1 = Some (rs', rest)"
      by (subst (asm) ranges.simps) (auto split: option.splits)
    with "1.IH" [OF r1 refl rest1 False] rest1 have "length rest < length rest1" by simp
    with less1 show ?thesis by simp
  qed
qed

lemma parse_class_shorter:
  "parse_class chunk = Some (t, rest) \<Longrightarrow> length rest < length chunk"
  by (auto simp: parse_class_def split: list.splits if_splits option.splits
           dest: ranges_shorter)

text \<open>
  The pattern as a list of tokens, or \<open>None\<close> for a malformed pattern. The flag says
  whether the position is the start of a path segment.
\<close>

function parse :: "bool \<Rightarrow> string \<Rightarrow> token list option" where
  "parse startOfSegment [] = Some []"
| "parse startOfSegment (c # p) =
     (if c = CHR ''*'' then
        (case p of
           [] \<Rightarrow> Some [Star]
         | d # q \<Rightarrow>
             if d = CHR ''*'' then
               (case q of
                  [] \<Rightarrow> Some [if startOfSegment then Globstar else Star]
                | e # r \<Rightarrow>
                    if startOfSegment \<and> e = CHR ''/''
                    then map_option ((#) Globstar) (parse True r)
                    else map_option ((#) Star) (parse False q))
             else map_option ((#) Star) (parse False p))
      else if c = CHR ''?'' then map_option ((#) AnyChar) (parse False p)
      else if c = CHR ''['' then
        (case parse_class p of
           None \<Rightarrow> None
         | Some (cls, rest) \<Rightarrow> map_option ((#) cls) (parse False rest))
      else if c = backslash then
        (case p of
           [] \<Rightarrow> None
         | d # q \<Rightarrow> map_option ((#) (Lit d)) (parse (d = CHR ''/'') q))
      else map_option ((#) (Lit c)) (parse (c = CHR ''/'') p))"
  by pat_completeness auto
termination
  by (relation "measure (\<lambda>(startOfSegment, p). length p)")
     (auto dest: parse_class_shorter)

text \<open>What a star may leave unread: the name, and the name without some of its leading
  characters, none of them a separator.\<close>

fun star_rests :: "string \<Rightarrow> string list" where
  "star_rests [] = [[]]"
| "star_rests (c # cs) = (c # cs) # (if c = CHR ''/'' then [] else star_rests cs)"

text \<open>What a recursive wildcard followed by a separator may leave unread: the name (no
  segment skipped), and what follows each of its separators (whole segments skipped).\<close>

fun after_separators :: "string \<Rightarrow> string list" where
  "after_separators [] = []"
| "after_separators (c # cs) = (if c = CHR ''/'' then [cs] else []) @ after_separators cs"

definition in_class :: "(char \<times> char) list \<Rightarrow> char \<Rightarrow> bool" where
  "in_class rs c =
     list_ex (\<lambda>(lo, hi). (of_char lo :: nat) \<le> of_char c \<and> (of_char c :: nat) \<le> of_char hi) rs"

fun matches :: "token list \<Rightarrow> string \<Rightarrow> bool" where
  "matches [] name = (name = [])"
| "matches (Lit c # ts) name =
     (case name of [] \<Rightarrow> False | d # ds \<Rightarrow> d = c \<and> matches ts ds)"
| "matches (AnyChar # ts) name =
     (case name of [] \<Rightarrow> False | d # ds \<Rightarrow> d \<noteq> CHR ''/'' \<and> matches ts ds)"
| "matches (Class negated rs # ts) name =
     (case name of
        [] \<Rightarrow> False
      | d # ds \<Rightarrow> d \<noteq> CHR ''/'' \<and> in_class rs d \<noteq> negated \<and> matches ts ds)"
| "matches (Star # ts) name = list_ex (matches ts) (star_rests name)"
| "matches (Globstar # ts) name =
     (ts = [] \<or> list_ex (matches ts) (name # after_separators name))"

text \<open>
  Modelled from the spec: \<^verbatim>\<open>doublestar.Match(pattern, name)\<close>, by the grammar above. A
  malformed pattern is an error whatever the name is; otherwise the result says whether
  the pattern matches the whole name.
\<close>

definition Match :: matcher where
  "Match pattern name =
     (case parse True pattern of
        None \<Rightarrow> Inl ErrBadPattern
      | Some ts \<Rightarrow> Inr (matches ts name))"

subsection \<open>A bucket behind the storage client\<close>

text \<open>
  Modelled from the spec: the storage service, reached through the imported package
  \<^verbatim>\<open>cloud.google.com/go/storage\<close>. Section 4.3 of the specification: the listing driver
  issues a "list keys under prefix" request and produces the candidate keys. Here the
  client is created without error, the bucket \<open>bucket\<close> holds the keys \<open>keys\<close>, in the
  order in which the service lists them, a listing gives the keys that start with the
  prefix of the query, and the listing of any other bucket fails.
\<close>

definition bucket_client :: "string \<Rightarrow> string list \<Rightarrow> gcs" where
  "bucket_client bucket keys =
     \<lparr>newClient = None,
      objects = (\<lambda>bucketName queryPrefix.
        if bucketName = bucket
        then map Attrs (filter (\<lambda>key. HasPrefix key queryPrefix) keys)
        else [IterErr ''storage: bucket doesn't exist''])\<rparr>"

section \<open>Properties\<close>

subsection \<open>Strings\<close>

lemma IndexAny_ge: "- 1 \<le> IndexAny s chars"
  by (induction s) (auto simp: Let_def)

lemma IndexAny_none: "IndexAny s chars = - 1 \<longleftrightarrow> set s \<inter> set chars = {}"
proof (induction s)
  case Nil
  show ?case by simp
next
  case (Cons c s)
  have "- 1 \<le> IndexAny s chars" by (rule IndexAny_ge)
  with Cons show ?case by (auto simp: Let_def)
qed

lemma take_IndexAny:
  "IndexAny s chars \<noteq> - 1 \<Longrightarrow>
   take (nat (IndexAny s chars)) s = takeWhile (\<lambda>c. c \<notin> set chars) s"
proof (induction s)
  case Nil
  then show ?case by simp
next
  case (Cons c s)
  show ?case
  proof (cases "c \<in> set chars")
    case True
    then show ?thesis by simp
  next
    case False
    with Cons.prems have ne: "IndexAny s chars \<noteq> - 1" by (auto simp: Let_def)
    have "0 \<le> IndexAny s chars" using ne IndexAny_ge [of s chars] by linarith
    then have "nat (IndexAny s chars + 1) = Suc (nat (IndexAny s chars))" by linarith
    with False ne Cons.IH show ?thesis by (simp add: Let_def)
  qed
qed

lemma takeWhile_all: "\<forall>x \<in> set p. P x \<Longrightarrow> takeWhile P p = p"
  by (induction p) auto

lemma takeWhile_stop:
  "\<forall>x \<in> set pre. P x \<Longrightarrow> \<not> P c \<Longrightarrow> takeWhile P (pre @ c # rest) = pre"
  by (induction pre) auto

lemma take_IndexAny_or_all:
  "(let i = IndexAny p chars in if i = - 1 then p else take (nat i) p)
     = takeWhile (\<lambda>c. c \<notin> set chars) p"
proof (cases "IndexAny p chars = - 1")
  case True
  then have "\<forall>x \<in> set p. x \<notin> set chars" using IndexAny_none [of p chars] by blast
  then have tw: "takeWhile (\<lambda>c. c \<notin> set chars) p = p" by (rule takeWhile_all)
  from True have "(let i = IndexAny p chars in if i = - 1 then p else take (nat i) p) = p"
    by (simp add: Let_def)
  with tw show ?thesis by (simp only:)
next
  case False
  then show ?thesis using take_IndexAny [of p chars] by (simp add: Let_def)
qed

lemma getPrefixFromPattern_takeWhile:
  "getPrefixFromPattern p = takeWhile (\<lambda>c. c \<notin> set ''*?['') p"
  unfolding getPrefixFromPattern_def by (rule take_IndexAny_or_all)

lemma HasPrefix_iff: "HasPrefix s pre \<longleftrightarrow> prefix pre s"
  by (auto simp: HasPrefix_def prefix_def) (metis append_take_drop_id)

subsection \<open>The prefix extractor\<close>

text \<open>
  C6. For every pattern, \<open>getPrefixFromPattern\<close> returns the text strictly before the
  first occurrence of one of \<open>*\<close>, \<open>?\<close>, \<open>[\<close>, and the whole pattern when none of
  them occurs; it maps \<open>logs/**/*.txt\<close> to \<open>logs/\<close>.
\<close>

theorem getPrefixFromPattern_before_first_wildcard:
  "(set pre \<inter> set ''*?['' = {} \<and> c \<in> set ''*?[''
      \<longrightarrow> getPrefixFromPattern (pre @ c # rest) = pre)
   \<and> (set p \<inter> set ''*?['' = {} \<longrightarrow> getPrefixFromPattern p = p)
   \<and> getPrefixFromPattern ''logs/**/*.txt'' = ''logs/''"
proof (intro conjI impI)
  assume "set pre \<inter> set ''*?['' = {} \<and> c \<in> set ''*?[''"
  then have "\<forall>x \<in> set pre. x \<notin> set ''*?[''" and "\<not> c \<notin> set ''*?[''" by blast+
  then have "takeWhile (\<lambda>c. c \<notin> set ''*?['') (pre @ c # rest) = pre"
    by (rule takeWhile_stop)
  then show "getPrefixFromPattern (pre @ c # rest) = pre"
    by (simp only: getPrefixFromPattern_takeWhile)
next
  assume "set p \<inter> set ''*?['' = {}"
  then have "\<forall>x \<in> set p. x \<notin> set ''*?[''" by blast
  then have "takeWhile (\<lambda>c. c \<notin> set ''*?['') p = p" by (rule takeWhile_all)
  then show "getPrefixFromPattern p = p"
    by (simp only: getPrefixFromPattern_takeWhile)
next
  show "getPrefixFromPattern ''logs/**/*.txt'' = ''logs/''"
    by (simp add: getPrefixFromPattern_def Let_def)
qed

theorem getPrefixFromPattern_before_first_wildcard_witness:
  "getPrefixFromPattern (''data/'' @ CHR ''?'' # ''.csv'') = ''data/''
   \<and> getPrefixFromPattern ''data/2024/a.csv'' = ''data/2024/a.csv''
   \<and> getPrefixFromPattern ''logs/**/*.txt'' = ''logs/''"
  using getPrefixFromPattern_before_first_wildcard
    [of "''data/''" "CHR ''?''" "''.csv''" "''data/2024/a.csv''"]
  by simp

text \<open>
  C10. For every pattern \<open>p\<close>, \<open>getPrefixFromPattern p\<close> is a prefix of \<open>p\<close>, contains
  none of \<open>*\<close>, \<open>?\<close>, \<open>[\<close>, and extracting the prefix again changes nothing.
\<close>

theorem getPrefixFromPattern_idempotent:
  "prefix (getPrefixFromPattern p) p
   \<and> set (getPrefixFromPattern p) \<inter> set ''*?['' = {}
   \<and> getPrefixFromPattern (getPrefixFromPattern p) = getPrefixFromPattern p"
proof (intro conjI)
  let ?q = "takeWhile (\<lambda>c. c \<notin> set ''*?['') p"
  have "p = ?q @ dropWhile (\<lambda>c. c \<notin> set ''*?['') p" by simp
  then have "prefix ?q p" by (rule prefixI)
  then show "prefix (getPrefixFromPattern p) p"
    by (simp only: getPrefixFromPattern_takeWhile)
  have clean: "\<forall>x \<in> set ?q. x \<notin> set ''*?[''" by (blast dest: set_takeWhileD)
  then show "set (getPrefixFromPattern p) \<inter> set ''*?['' = {}"
    unfolding getPrefixFromPattern_takeWhile by blast
  from clean have "takeWhile (\<lambda>c. c \<notin> set ''*?['') ?q = ?q"
    by (rule takeWhile_all)
  then show "getPrefixFromPattern (getPrefixFromPattern p) = getPrefixFromPattern p"
    by (simp only: getPrefixFromPattern_takeWhile)
qed

subsection \<open>Splitting at the first separator\<close>

lemma drop_IndexAny:
  "IndexAny s chars \<noteq> - 1 \<Longrightarrow>
   drop (nat (IndexAny s chars)) s = dropWhile (\<lambda>c. c \<notin> set chars) s"
proof (induction s)
  case Nil
  then show ?case by simp
next
  case (Cons c s)
  show ?case
  proof (cases "c \<in> set chars")
    case True
    then show ?thesis by simp
  next
    case False
    with Cons.prems have ne: "IndexAny s chars \<noteq> - 1" by (auto simp: Let_def)
    have "0 \<le> IndexAny s chars" using ne IndexAny_ge [of s chars] by linarith
    then have "nat (IndexAny s chars + 1) = Suc (nat (IndexAny s chars))" by linarith
    with False ne Cons.IH show ?thesis by (simp add: Let_def)
  qed
qed

lemma dropWhile_stop:
  "\<forall>x \<in> set pre. P x \<Longrightarrow> \<not> P c \<Longrightarrow> dropWhile P (pre @ c # rest) = c # rest"
  by (induction pre) auto

lemma SplitN2_none: "sep \<notin> set s \<Longrightarrow> SplitN2 s sep = [s]"
proof -
  assume "sep \<notin> set s"
  then have "set s \<inter> set [sep] = {}" by simp
  then have "IndexAny s [sep] = - 1" by (simp only: IndexAny_none)
  then show ?thesis by (simp add: SplitN2_def)
qed

lemma SplitN2_some:
  "sep \<in> set s \<Longrightarrow>
   SplitN2 s sep = [takeWhile (\<lambda>c. c \<noteq> sep) s, tl (dropWhile (\<lambda>c. c \<noteq> sep) s)]"
proof -
  assume "sep \<in> set s"
  then have "set s \<inter> set [sep] \<noteq> {}" by auto
  then have ne: "IndexAny s [sep] \<noteq> - 1" using IndexAny_none [of s "[sep]"] by blast
  then have nonneg: "0 \<le> IndexAny s [sep]" using IndexAny_ge [of s "[sep]"] by linarith
  have t: "take (nat (IndexAny s [sep])) s = takeWhile (\<lambda>c. c \<noteq> sep) s"
    using take_IndexAny [OF ne] by simp
  have "drop (nat (IndexAny s [sep]) + 1) s = tl (drop (nat (IndexAny s [sep])) s)"
    by (simp add: drop_Suc tl_drop)
  also have "\<dots> = tl (dropWhile (\<lambda>c. c \<noteq> sep) s)"
    using drop_IndexAny [OF ne] by simp
  finally show ?thesis using nonneg t by (simp add: SplitN2_def Let_def)
qed

subsection \<open>Parsing the path\<close>

lemma parsePath_no_scheme:
  "\<not> prefix ''gs://'' gcsPath \<Longrightarrow>
   parsePath gcsPath = Inl (InvalidPath ''invalid GCS path: must start with gs://'')"
  by (simp add: parsePath_def HasPrefix_iff)

lemma TrimPrefix_append: "TrimPrefix (pre @ s) pre = s"
  by (simp add: TrimPrefix_def HasPrefix_def)

lemma HasPrefix_append: "HasPrefix (pre @ s) pre"
  by (simp add: HasPrefix_def)

lemma parsePath_parts:
  "parsePath (''gs://'' @ rest) =
     (let parts = SplitN2 rest CHR ''/''
      in if length parts = 0 \<or> parts ! 0 = []
         then Inl (InvalidPath ''invalid GCS path: bucket name is missing'')
         else Inr (parts ! 0,
                   if (if length parts > 1 then parts ! 1 else []) = [] then ''**''
                   else (if length parts > 1 then parts ! 1 else [])))"
  unfolding parsePath_def
  by (simp only: HasPrefix_append TrimPrefix_append Let_def not_True_eq_False if_False)

lemma parsePath_no_bucket:
  assumes "takeWhile (\<lambda>c. c \<noteq> CHR ''/'') rest = []"
  shows "parsePath (''gs://'' @ rest) = Inl (InvalidPath ''invalid GCS path: bucket name is missing'')"
proof (cases "CHR ''/'' \<in> set rest")
  case True
  from SplitN2_some [OF True] assms have "SplitN2 rest CHR ''/'' ! 0 = []" by simp
  then show ?thesis by (simp only: parsePath_parts Let_def simp_thms if_True)
next
  case False
  then have "takeWhile (\<lambda>c. c \<noteq> CHR ''/'') rest = rest" by (intro takeWhile_all) auto
  with assms have "rest = []" by simp
  then have "SplitN2 rest CHR ''/'' ! 0 = []" by (simp add: SplitN2_def)
  then show ?thesis by (simp only: parsePath_parts Let_def simp_thms if_True)
qed

lemma parsePath_bucket_only:
  assumes "bucket \<noteq> []" and "CHR ''/'' \<notin> set bucket"
  shows "parsePath (''gs://'' @ bucket) = Inr (bucket, ''**'')"
    and "parsePath (''gs://'' @ bucket @ ''/'') = Inr (bucket, ''**'')"
proof -
  from assms(2) have "SplitN2 bucket CHR ''/'' = [bucket]" by (rule SplitN2_none)
  with assms(1) have "(let parts = SplitN2 bucket CHR ''/''
      in if length parts = 0 \<or> parts ! 0 = []
         then Inl (InvalidPath ''invalid GCS path: bucket name is missing'')
         else Inr (parts ! 0,
                   if (if length parts > 1 then parts ! 1 else []) = [] then ''**''
                   else (if length parts > 1 then parts ! 1 else []))) = Inr (bucket, ''**'')"
    by simp
  then show "parsePath (''gs://'' @ bucket) = Inr (bucket, ''**'')"
    by (simp only: parsePath_parts)
  have in_set: "CHR ''/'' \<in> set (bucket @ ''/'')" by simp
  from assms(2) have "takeWhile (\<lambda>c. c \<noteq> CHR ''/'') (bucket @ ''/'') = bucket"
    by (intro takeWhile_stop) auto
  moreover from assms(2) have "dropWhile (\<lambda>c. c \<noteq> CHR ''/'') (bucket @ ''/'') = ''/''"
    by (intro dropWhile_stop) auto
  ultimately have "SplitN2 (bucket @ ''/'') CHR ''/'' = [bucket, []]"
    using SplitN2_some [OF in_set] by simp
  with assms(1) have "(let parts = SplitN2 (bucket @ ''/'') CHR ''/''
      in if length parts = 0 \<or> parts ! 0 = []
         then Inl (InvalidPath ''invalid GCS path: bucket name is missing'')
         else Inr (parts ! 0,
                   if (if length parts > 1 then parts ! 1 else []) = [] then ''**''
                   else (if length parts > 1 then parts ! 1 else []))) = Inr (bucket, ''**'')"
    by simp
  then show "parsePath (''gs://'' @ bucket @ ''/'') = Inr (bucket, ''**'')"
    by (simp only: parsePath_parts)
qed

text \<open>
  C8. Every input that does not begin with \<open>gs://\<close> makes \<open>listObjectsWithWildcard\<close>
  fail with the \<open>InvalidPath\<close> error "must start with gs://", whatever the matcher and
  the storage client are: nothing is printed and no call to the storage client is made.
\<close>

theorem missing_scheme_is_InvalidPath:
  "\<not> prefix ''gs://'' gcsPath \<Longrightarrow>
   listObjectsWithWildcard M g gcsPath =
     \<lparr>stdout = [], calls = [],
      err = Some (InvalidPath ''invalid GCS path: must start with gs://'')\<rparr>"
  by (simp add: listObjectsWithWildcard_def parsePath_no_scheme)

theorem missing_scheme_is_InvalidPath_witness:
  "\<not> prefix ''gs://'' ''s3://bucket/*.csv''
   \<and> listObjectsWithWildcard (\<lambda>pattern name. Inr True)
         \<lparr>newClient = None, objects = (\<lambda>bucket queryPrefix. [Attrs ''a.csv''])\<rparr>
         ''s3://bucket/*.csv'' =
       \<lparr>stdout = [], calls = [],
        err = Some (InvalidPath ''invalid GCS path: must start with gs://'')\<rparr>"
proof -
  have h: "\<not> prefix ''gs://'' ''s3://bucket/*.csv''" by simp
  from h missing_scheme_is_InvalidPath [OF h] show ?thesis by (rule conjI)
qed

text \<open>
  C9. Every input \<open>gs://\<close> followed by a text whose part before the first \<open>/\<close> (the
  bucket segment) is empty makes \<open>listObjectsWithWildcard\<close> fail with the \<open>InvalidPath\<close>
  error "bucket name is missing", whatever the matcher and the storage client are:
  nothing is printed and no call to the storage client is made.
\<close>

theorem empty_bucket_is_InvalidPath:
  "takeWhile (\<lambda>c. c \<noteq> CHR ''/'') rest = [] \<Longrightarrow>
   listObjectsWithWildcard M g (''gs://'' @ rest) =
     \<lparr>stdout = [], calls = [],
      err = Some (InvalidPath ''invalid GCS path: bucket name is missing'')\<rparr>"
  by (simp only: listObjectsWithWildcard_def parsePath_no_bucket sum.case)

theorem empty_bucket_is_InvalidPath_witness:
  "takeWhile (\<lambda>c. c \<noteq> CHR ''/'') ''/data/*.csv'' = []
   \<and> listObjectsWithWildcard (\<lambda>pattern name. Inr True)
         \<lparr>newClient = None, objects = (\<lambda>bucket queryPrefix. [Attrs ''data/a.csv''])\<rparr>
         (''gs://'' @ ''/data/*.csv'') =
       \<lparr>stdout = [], calls = [],
        err = Some (InvalidPath ''invalid GCS path: bucket name is missing'')\<rparr>"
proof -
  have h: "takeWhile (\<lambda>c. c \<noteq> CHR ''/'') ''/data/*.csv'' = []" by simp
  from h empty_bucket_is_InvalidPath [OF h] show ?thesis by (rule conjI)
qed

subsection \<open>The run\<close>

lemma loop_all_match:
  "\<forall>name \<in> set keys. M pat name = Inr True \<Longrightarrow>
   loop M b pat (map Attrs keys) found =
     (map (\<lambda>key. ''gs://'' @ b @ ''/'' @ key) keys, found \<or> keys \<noteq> [], None)"
  by (induction keys arbitrary: found) auto

text \<open>
  C7. For a path \<open>gs://bucket\<close> or \<open>gs://bucket/\<close> (no \<open>/\<close> after the bucket, or nothing
  after it) the pattern is rewritten to \<open>**\<close>. The listing is then asked with the empty
  prefix, and, the matcher accepting every name for \<open>**\<close>, the run prints one line for
  every key the listing gives, at any depth, in the order of the listing.
\<close>

theorem empty_pattern_lists_every_key:
  assumes bucket: "bucket \<noteq> []" "CHR ''/'' \<notin> set bucket"
    and path: "gcsPath = ''gs://'' @ bucket \<or> gcsPath = ''gs://'' @ bucket @ ''/''"
    and matcher: "\<forall>name. M ''**'' name = Inr True"
    and client: "newClient g = None" "objects g bucket [] = map Attrs keys"
  shows "parsePath gcsPath = Inr (bucket, ''**'')
     \<and> listObjectsWithWildcard M g gcsPath =
         \<lparr>stdout = (''Listing objects in gs://'' @ bucket @ '' matching pattern: **'')
                     # map (\<lambda>key. ''gs://'' @ bucket @ ''/'' @ key) keys
                     @ (if keys = [] then [''No objects found matching the pattern.''] else []),
          calls = [NewClient, Objects bucket [], Close],
          err = None\<rparr>"
proof -
  from path parsePath_bucket_only [OF bucket]
  have parsed: "parsePath gcsPath = Inr (bucket, ''**'')" by auto
  have pre: "getPrefixFromPattern ''**'' = []"
    by (simp add: getPrefixFromPattern_def)
  from matcher have "\<forall>name \<in> set keys. M ''**'' name = Inr True" by simp
  then have "loop M bucket ''**'' (map Attrs keys) False =
      (map (\<lambda>key. ''gs://'' @ bucket @ ''/'' @ key) keys, False \<or> keys \<noteq> [], None)"
    by (rule loop_all_match)
  with parsed pre client show ?thesis
    by (simp add: listObjectsWithWildcard_def)
qed

theorem empty_pattern_lists_every_key_witness:
  "parsePath ''gs://bucket/'' = Inr (''bucket'', ''**'')
   \<and> listObjectsWithWildcard Match (bucket_client ''bucket'' [''a.csv'', ''b/c/d.txt''])
         ''gs://bucket/'' =
       \<lparr>stdout = [''Listing objects in gs://bucket matching pattern: **'',
                   ''gs://bucket/a.csv'', ''gs://bucket/b/c/d.txt''],
        calls = [NewClient, Objects ''bucket'' [], Close],
        err = None\<rparr>"
proof -
  have m: "\<forall>name. Match ''**'' name = Inr True" by (simp add: Match_def)
  have c: "objects (bucket_client ''bucket'' [''a.csv'', ''b/c/d.txt'']) ''bucket'' []
             = map Attrs [''a.csv'', ''b/c/d.txt'']"
    by (simp add: bucket_client_def HasPrefix_def)
  have n: "newClient (bucket_client ''bucket'' [''a.csv'', ''b/c/d.txt'']) = None"
    by (simp add: bucket_client_def)
  have "''bucket'' \<noteq> []" and "CHR ''/'' \<notin> set ''bucket''"
    and "''gs://bucket/'' = ''gs://'' @ ''bucket'' \<or> ''gs://bucket/'' = ''gs://'' @ ''bucket'' @ ''/''"
    by simp_all
  from empty_pattern_lists_every_key
         [where bucket = "''bucket''" and gcsPath = "''gs://bucket/''" and M = Match
            and g = "bucket_client ''bucket'' [''a.csv'', ''b/c/d.txt'']"
            and keys = "[''a.csv'', ''b/c/d.txt'']", OF this m n c]
  show ?thesis by simp
qed

text \<open>
  C3 (claimed: with the keys \<open>a.csv\<close>, \<open>b/a.csv\<close>, \<open>b/c.txt\<close> and the pattern \<open>*.csv\<close>,
  standard output is the one line \<open>gs://bucket/a.csv\<close> and nothing else). The run prints
  a line that names the bucket and the pattern before it iterates, so the output is not
  that one line.
\<close>

theorem star_csv_stdout_not_one_line:
  "stdout (listObjectsWithWildcard Match
             (bucket_client ''bucket'' [''a.csv'', ''b/a.csv'', ''b/c.txt''])
             ''gs://bucket/*.csv'')
   \<noteq> [''gs://bucket/a.csv'']"
  by code_simp

text \<open>
  C3, amended. With a listing that gives the keys \<open>a.csv\<close>, \<open>b/a.csv\<close>, \<open>b/c.txt\<close> and a
  matcher for which \<open>*.csv\<close> matches the first and neither of the other two, the run on
  \<open>gs://bucket/*.csv\<close> prints the line "Listing objects in gs://bucket matching pattern:
  *.csv" and then exactly one matched-key line, \<open>gs://bucket/a.csv\<close>, and returns no error.
\<close>

theorem star_csv_stdout:
  assumes client: "newClient g = None"
      "objects g ''bucket'' [] = map Attrs [''a.csv'', ''b/a.csv'', ''b/c.txt'']"
    and matcher: "M ''*.csv'' ''a.csv'' = Inr True"
      "M ''*.csv'' ''b/a.csv'' = Inr False"
      "M ''*.csv'' ''b/c.txt'' = Inr False"
  shows "listObjectsWithWildcard M g ''gs://bucket/*.csv'' =
     \<lparr>stdout = [''Listing objects in gs://bucket matching pattern: *.csv'',
                 ''gs://bucket/a.csv''],
      calls = [NewClient, Objects ''bucket'' [], Close],
      err = None\<rparr>"
proof -
  have parsed: "parsePath ''gs://bucket/*.csv'' = Inr (''bucket'', ''*.csv'')"
    by code_simp
  have pre: "getPrefixFromPattern ''*.csv'' = []"
    by (simp add: getPrefixFromPattern_def)
  from matcher have
    "loop M ''bucket'' ''*.csv'' (map Attrs [''a.csv'', ''b/a.csv'', ''b/c.txt'']) False
       = ([''gs://bucket/a.csv''], True, None)"
    by simp
  with parsed pre client show ?thesis
    by (simp add: listObjectsWithWildcard_def)
qed

theorem star_csv_stdout_witness:
  "listObjectsWithWildcard Match
     (bucket_client ''bucket'' [''a.csv'', ''b/a.csv'', ''b/c.txt''])
     ''gs://bucket/*.csv'' =
   \<lparr>stdout = [''Listing objects in gs://bucket matching pattern: *.csv'',
               ''gs://bucket/a.csv''],
    calls = [NewClient, Objects ''bucket'' [], Close],
    err = None\<rparr>"
proof -
  have n: "newClient (bucket_client ''bucket'' [''a.csv'', ''b/a.csv'', ''b/c.txt'']) = None"
    by (simp add: bucket_client_def)
  have c: "objects (bucket_client ''bucket'' [''a.csv'', ''b/a.csv'', ''b/c.txt'']) ''bucket'' []
             = map Attrs [''a.csv'', ''b/a.csv'', ''b/c.txt'']"
    by (simp add: bucket_client_def HasPrefix_def)
  have m1: "Match ''*.csv'' ''a.csv'' = Inr True" by code_simp
  have m2: "Match ''*.csv'' ''b/a.csv'' = Inr False" by code_simp
  have m3: "Match ''*.csv'' ''b/c.txt'' = Inr False" by code_simp
  from star_csv_stdout
         [where M = Match
            and g = "bucket_client ''bucket'' [''a.csv'', ''b/a.csv'', ''b/c.txt'']",
          OF n c m1 m2 m3]
  show ?thesis .
qed

text \<open>
  Without candidates the matcher is never called: when the listing is empty, the run
  returns no error, whatever the pattern is.
\<close>

lemma no_candidate_no_error:
  assumes "parsePath gcsPath = Inr (bucketName, objectPattern)"
    and "newClient g = None"
    and "objects g bucketName (getPrefixFromPattern objectPattern) = []"
  shows "listObjectsWithWildcard M g gcsPath =
     \<lparr>stdout = [''Listing objects in gs://'' @ bucketName
                   @ '' matching pattern: '' @ objectPattern,
                 ''No objects found matching the pattern.''],
      calls = [NewClient, Objects bucketName (getPrefixFromPattern objectPattern), Close],
      err = None\<rparr>"
  using assms by (simp add: listObjectsWithWildcard_def)

text \<open>
  With a candidate first in the listing, a pattern the matcher rejects for it makes the
  run fail with the pattern error, after the header line.
\<close>

lemma first_candidate_pattern_error:
  assumes "parsePath gcsPath = Inr (bucketName, objectPattern)"
    and "newClient g = None"
    and "objects g bucketName (getPrefixFromPattern objectPattern) = Attrs name # rest"
    and "M objectPattern name = Inl ErrBadPattern"
  shows "listObjectsWithWildcard M g gcsPath =
     \<lparr>stdout = [''Listing objects in gs://'' @ bucketName
                   @ '' matching pattern: '' @ objectPattern],
      calls = [NewClient, Objects bucketName (getPrefixFromPattern objectPattern), Close],
      err = Some (PatternError (''invalid glob pattern '' @ [CHR 0x27] @ objectPattern
                                  @ [CHR 0x27] @ '': syntax error in pattern''))\<rparr>"
  using assms by (simp add: listObjectsWithWildcard_def)

text \<open>
  C2 (claimed: with a malformed pattern, a run whose path parses fails with a
  \<open>PatternError\<close>, however many candidates the listing gives, none included). The
  pattern \<open>logs/[\<close> is malformed for every name; on a bucket with no key under \<open>logs/\<close>
  the listing gives no candidate, and the run on \<open>gs://bucket/logs/[\<close> prints that no
  object matches and returns no error.
\<close>

theorem invalid_pattern_without_candidates:
  "(\<forall>name. Match ''logs/['' name = Inl ErrBadPattern)
   \<and> listObjectsWithWildcard Match
         (bucket_client ''bucket'' [''a.csv'', ''b/a.csv'', ''b/c.txt''])
         ''gs://bucket/logs/['' =
       \<lparr>stdout = [''Listing objects in gs://bucket matching pattern: logs/['',
                   ''No objects found matching the pattern.''],
        calls = [NewClient, Objects ''bucket'' ''logs/'', Close],
        err = None\<rparr>"
proof
  show "\<forall>name. Match ''logs/['' name = Inl ErrBadPattern"
    by (simp add: Match_def parse_class_def)
  show "listObjectsWithWildcard Match
         (bucket_client ''bucket'' [''a.csv'', ''b/a.csv'', ''b/c.txt''])
         ''gs://bucket/logs/['' =
       \<lparr>stdout = [''Listing objects in gs://bucket matching pattern: logs/['',
                   ''No objects found matching the pattern.''],
        calls = [NewClient, Objects ''bucket'' ''logs/'', Close],
        err = None\<rparr>"
    by code_simp
qed

subsection \<open>The matcher\<close>

text \<open>
  C4. Two stars are recursive: \<open>**/*.csv\<close> matches \<open>data.csv\<close> (no leading segment) and
  \<open>sub/dir/data.csv\<close> (several leading segments).
\<close>

theorem Match_globstar_recursive:
  "Match ''**/*.csv'' ''data.csv'' = Inr True
   \<and> Match ''**/*.csv'' ''sub/dir/data.csv'' = Inr True"
  by code_simp

text \<open>
  C5. A single star stays within one path segment: \<open>*.csv\<close> matches \<open>data.csv\<close> and does
  not match \<open>sub/data.csv\<close>.
\<close>

theorem Match_star_one_segment:
  "Match ''*.csv'' ''data.csv'' = Inr True
   \<and> Match ''*.csv'' ''sub/data.csv'' = Inr False"
  by code_simp

subsection \<open>Narrowing the listing to the literal prefix\<close>

text \<open>
  A key that matches a pattern starts with the literal prefix of the pattern, provided
  that the prefix holds no backslash.
\<close>

lemma matches_literal_prefix:
  "parse st p = Some ts \<Longrightarrow> matches ts name \<Longrightarrow>
   backslash \<notin> set (takeWhile (\<lambda>c. c \<notin> set ''*?['') p) \<Longrightarrow>
   prefix (takeWhile (\<lambda>c. c \<notin> set ''*?['') p) name"
proof (induction p arbitrary: st ts name)
  case Nil
  then show ?case by simp
next
  case (Cons c p)
  show ?case
  proof (cases "c \<in> set ''*?[''")
    case True
    then show ?thesis by auto
  next
    case False
    with Cons.prems(3) have nb: "c \<noteq> backslash"
      and rest: "backslash \<notin> set (takeWhile (\<lambda>c. c \<notin> set ''*?['') p)"
      by auto
    from False nb Cons.prems(1) obtain ts' where
      ts: "ts = Lit c # ts'" and p: "parse (c = CHR ''/'') p = Some ts'"
      by auto
    from Cons.prems(2) ts obtain ds where
      name: "name = c # ds" and m: "matches ts' ds"
      by (auto split: list.splits)
    from Cons.IH [OF p m rest] False name show ?thesis by simp
  qed
qed

lemma Match_starts_with_prefix:
  assumes "Match pattern key = Inr True"
    and "backslash \<notin> set (getPrefixFromPattern pattern)"
  shows "HasPrefix key (getPrefixFromPattern pattern)"
proof -
  from assms(1) obtain ts where p: "parse True pattern = Some ts" and m: "matches ts key"
    by (auto simp: Match_def split: option.splits)
  have "backslash \<notin> set (takeWhile (\<lambda>c. c \<notin> set ''*?['') pattern)"
    using assms(2) unfolding getPrefixFromPattern_takeWhile .
  from matches_literal_prefix [OF p m this] show ?thesis
    by (simp only: HasPrefix_iff getPrefixFromPattern_takeWhile)
qed

lemma narrowed_listing_keeps_matches:
  assumes "backslash \<notin> set (getPrefixFromPattern pattern)"
  shows "filter (\<lambda>key. Match pattern key = Inr True)
           (filter (\<lambda>key. HasPrefix key (getPrefixFromPattern pattern)) keys)
         = filter (\<lambda>key. Match pattern key = Inr True) keys"
proof -
  have "\<And>key. Match pattern key = Inr True \<and> HasPrefix key (getPrefixFromPattern pattern)
          \<longleftrightarrow> Match pattern key = Inr True"
    using Match_starts_with_prefix [OF _ assms] by blast
  then show ?thesis by (simp add: conj_commute)
qed

text \<open>
  C1 (claimed: a key that matches the pattern starts with the prefix returned by
  \<open>getPrefixFromPattern\<close>, so the narrowed listing loses no match). It fails where a
  backslash escapes a wildcard. The pattern below is \<open>data\<close>, a backslash, \<open>[1\<close>, a
  backslash, \<open>].csv\<close>: it matches the key \<open>data[1].csv\<close>, its prefix is \<open>data\<close> followed
  by the backslash, the key does not start with that prefix, and the run on a bucket that
  holds the key asks for the keys under that prefix and reports that no object matches.
\<close>

theorem escaped_wildcard_prefix_excludes_match:
  "Match (''data'' @ [backslash] @ ''[1'' @ [backslash] @ ''].csv'') ''data[1].csv'' = Inr True
   \<and> getPrefixFromPattern (''data'' @ [backslash] @ ''[1'' @ [backslash] @ ''].csv'')
       = ''data'' @ [backslash]
   \<and> \<not> prefix (''data'' @ [backslash]) ''data[1].csv''
   \<and> listObjectsWithWildcard Match (bucket_client ''bucket'' [''data[1].csv''])
         (''gs://bucket/'' @ ''data'' @ [backslash] @ ''[1'' @ [backslash] @ ''].csv'') =
       \<lparr>stdout = [''Listing objects in gs://bucket matching pattern: ''
                     @ ''data'' @ [backslash] @ ''[1'' @ [backslash] @ ''].csv'',
                   ''No objects found matching the pattern.''],
        calls = [NewClient, Objects ''bucket'' (''data'' @ [backslash]), Close],
        err = None\<rparr>"
  by code_simp

end
